theory Spec2Isabelle
  imports Main "HOL-Library.Word" "HOL-Library.Char_ord" "HOL-Library.List_Lexorder"
begin

chapter \<open>Cipherlink: the replay gate, the message codec and the handshake forms\<close>

text \<open>
  A shallow embedding of the parts of the relay and of the client that the properties
  below are about:
  \<^item> the relay's replay-protection middleware and its periodic sweep of the nonce cache;
  \<^item> the client's \<open>encryptMessage\<close> and \<open>decryptMessage\<close>, with the base-64 transport
    of the byte arrays;
  \<^item> the client's \<open>deriveSessionKey\<close> and the text that the handshake signs and verifies;
  \<^item> the relay's \<open>/key-exchange/confirm\<close> handler;
  \<^item> the relay's \<open>/messages/send\<close> handler and the message schema behind it.

  Module-level maps are explicit state, the clock and the random source are arguments,
  exceptions and HTTP error responses are values. Console output and the audit log are
  not part of the model.
\<close>


section \<open>Relay: the replay-protection middleware\<close>

text \<open>
  The middleware keeps two module-level maps, \<open>nonceCache\<close> and \<open>sequenceTracking\<close>,
  reads the clock once per request and, on a tracker miss, asks the message store for the
  latest message of the conversation. The clock reading and the store are inputs of the
  model; the two maps are the state it returns updated.

  Fields of the request body are modelled with the types of the message schema when they
  are present (a string nonce, numeric timestamp and sequence number, a string recipient
  id) and \<open>None\<close> when the body does not carry them. JavaScript truthiness then reads:
  a string is falsy when absent or empty, a number when absent or zero.
\<close>

record replay_body =
  body_nonce :: "string option"
  body_timestamp :: "int option"
  body_sequenceNumber :: "int option"
  body_recipientId :: "string option"

record nonce_entry =
  ne_timestamp :: int
  ne_userId :: string
  ne_recipientId :: "string option"
  ne_sequenceNumber :: int
  acceptedAt :: int

record message_doc =
  doc_senderId :: string
  doc_recipientId :: string
  doc_ciphertext :: string
  doc_iv :: string
  doc_tag :: string
  doc_timestamp :: int
  doc_sequenceNumber :: int
  doc_nonce :: string

text \<open>The store: its documents, and whether a call to it completes (a call that does not
  complete raises in the source).\<close>

record message_store =
  online :: bool
  docs :: "message_doc list"

record gate_state =
  nonceCache :: "string \<rightharpoonup> nonce_entry"
  sequenceTracking :: "string \<rightharpoonup> int"

datatype gate_error =
    MissingReplayFields
  | MessageFromFuture
  | MessageTooOld
  | DuplicateNonce
  | InvalidSequenceNumber
  | ReplayCheckFailed

datatype gate_outcome = Next | Respond nat gate_error

definition MAX_NONCE_AGE :: int where
  "MAX_NONCE_AGE = 5 * 60 * 1000"

definition truthy_string :: "string option \<Rightarrow> bool" where
  "truthy_string s = (case s of None \<Rightarrow> False | Some v \<Rightarrow> v \<noteq> [])"

definition truthy_number :: "int option \<Rightarrow> bool" where
  "truthy_number n = (case n of None \<Rightarrow> False | Some v \<Rightarrow> v \<noteq> 0)"

text \<open>The periodic sweep (\<open>setInterval\<close>, every 60000 ms): one pass over the cache at
  clock reading \<open>now\<close>.\<close>

definition sweep :: "int \<Rightarrow> (string \<rightharpoonup> nonce_entry) \<Rightarrow> (string \<rightharpoonup> nonce_entry)" where
  "sweep now cache =
     (\<lambda>n. case cache n of
            None \<Rightarrow> None
          | Some d \<Rightarrow> if now - ne_timestamp d > MAX_NONCE_AGE then None else Some d)"

text \<open>\<open>Message.findOne({$or: [...]}).sort({sequenceNumber: -1})\<close>: the documents of the
  conversation in either direction, the one with the greatest sequence number first.\<close>

definition in_conversation :: "string \<Rightarrow> string \<Rightarrow> message_doc \<Rightarrow> bool" where
  "in_conversation s r m =
     ((doc_senderId m = s \<and> doc_recipientId m = r) \<or> (doc_senderId m = r \<and> doc_recipientId m = s))"

fun greatest :: "int list \<Rightarrow> int option" where
  "greatest [] = None"
| "greatest (x # xs) = (case greatest xs of None \<Rightarrow> Some x | Some y \<Rightarrow> Some (max x y))"

definition findLastSequence :: "message_doc list \<Rightarrow> string \<Rightarrow> string \<Rightarrow> int option" where
  "findLastSequence ms s r = greatest (map doc_sequenceNumber (filter (in_conversation s r) ms))"

definition conversationKey :: "string \<Rightarrow> string \<Rightarrow> string" where
  "conversationKey a b = a @ ''-'' @ b"

text \<open>The presence test and the destructuring of the replay triple.\<close>

definition replay_fields :: "replay_body \<Rightarrow> (string \<times> int \<times> int) option" where
  "replay_fields body =
     (if \<not> truthy_string (body_nonce body) \<or> \<not> truthy_number (body_timestamp body)
         \<or> body_sequenceNumber body = None
      then None
      else (case (body_nonce body, body_timestamp body, body_sequenceNumber body) of
              (Some n, Some t, Some s) \<Rightarrow> Some (n, t, s)
            | _ \<Rightarrow> None))"

text \<open>Layer 3. The result is the response, if the layer rejects, and the tracker as the
  layer leaves it. A store call that raises is caught by the middleware's handler, which
  answers 500; the tracker has not been written at that point.\<close>

definition sequence_layer ::
  "message_store \<Rightarrow> string \<Rightarrow> string option \<Rightarrow> int \<Rightarrow> (string \<rightharpoonup> int)
     \<Rightarrow> gate_outcome \<times> (string \<rightharpoonup> int)" where
  "sequence_layer db sender recipient sequenceNumber tracking =
     (if sender \<noteq> [] \<and> truthy_string recipient then
        (case recipient of
           None \<Rightarrow> (Next, tracking)
         | Some rcp \<Rightarrow>
            let conversationKey1 = conversationKey sender rcp;
                conversationKey2 = conversationKey rcp sender
            in (case tracking conversationKey1 of
                  Some lastSequence \<Rightarrow>
                    if sequenceNumber \<le> lastSequence
                    then (Respond 400 InvalidSequenceNumber, tracking)
                    else (Next, tracking(conversationKey1 \<mapsto> sequenceNumber,
                                         conversationKey2 \<mapsto> sequenceNumber))
                | None \<Rightarrow>
                    if \<not> online db then (Respond 500 ReplayCheckFailed, tracking)
                    else
                      let lastSequence =
                            (case findLastSequence (docs db) sender rcp of
                               Some q \<Rightarrow> q | None \<Rightarrow> 0);
                          tracking1 = tracking(conversationKey1 \<mapsto> lastSequence,
                                               conversationKey2 \<mapsto> lastSequence)
                      in if sequenceNumber \<le> lastSequence
                         then (Respond 400 InvalidSequenceNumber, tracking1)
                         else (Next, tracking1(conversationKey1 \<mapsto> sequenceNumber,
                                               conversationKey2 \<mapsto> sequenceNumber))))
      else (Next, tracking))"

definition replayProtection ::
  "int \<Rightarrow> message_store \<Rightarrow> string \<Rightarrow> replay_body \<Rightarrow> gate_state \<Rightarrow> gate_outcome \<times> gate_state" where
  "replayProtection now db sender body st =
     (case replay_fields body of
        None \<Rightarrow> (Respond 400 MissingReplayFields, st)
      | Some (nonce, timestamp, sequenceNumber) \<Rightarrow>
          let timeDiff = now - timestamp in
          if timeDiff < - 60000 then (Respond 400 MessageFromFuture, st)
          else if timeDiff > MAX_NONCE_AGE then (Respond 400 MessageTooOld, st)
          else if nonceCache st nonce \<noteq> None then (Respond 400 DuplicateNonce, st)
          else
            (case sequence_layer db sender (body_recipientId body) sequenceNumber
                    (sequenceTracking st) of
               (Respond code err, tracking') \<Rightarrow>
                 (Respond code err, st\<lparr>sequenceTracking := tracking'\<rparr>)
             | (Next, tracking') \<Rightarrow>
                 (Next,
                  \<lparr>nonceCache = (nonceCache st)(nonce \<mapsto>
                      \<lparr>ne_timestamp = timestamp, ne_userId = sender,
                       ne_recipientId = body_recipientId body,
                       ne_sequenceNumber = sequenceNumber, acceptedAt = now\<rparr>),
                   sequenceTracking = tracking'\<rparr>)))"

text \<open>Both maps are created empty when the module is loaded.\<close>

definition initial_gate :: gate_state where
  "initial_gate = \<lparr>nonceCache = Map.empty, sequenceTracking = Map.empty\<rparr>"

text \<open>The last sequence number the middleware compares a request of \<open>s\<close> to \<open>r\<close>
  against: the tracker's entry for the conversation key, else the store's greatest
  sequence number for the conversation, else 0. It is \<open>None\<close> when the tracker has no
  entry and the store call raises.\<close>

definition lastSeen :: "message_store \<Rightarrow> (string \<rightharpoonup> int) \<Rightarrow> string \<Rightarrow> string \<Rightarrow> int option" where
  "lastSeen db tracking s r =
     (case tracking (conversationKey s r) of
        Some v \<Rightarrow> Some v
      | None \<Rightarrow>
          if online db
          then Some (case findLastSequence (docs db) s r of Some q \<Rightarrow> q | None \<Rightarrow> 0)
          else None)"

text \<open>User ids are the store's object ids, written as hexadecimal digits; in particular
  they contain no hyphen, which is what makes the two conversation keys of a pair of users
  determine the pair. The tracker is always written at both keys of a pair at once.\<close>

definition hyphen_free :: "string \<Rightarrow> bool" where
  "hyphen_free s = (CHR ''-'' \<notin> set s)"

definition tracking_symmetric :: "(string \<rightharpoonup> int) \<Rightarrow> bool" where
  "tracking_symmetric tr =
     (\<forall>a b. hyphen_free a \<and> hyphen_free b \<longrightarrow>
        tr (conversationKey a b) = tr (conversationKey b a))"


section \<open>Client: byte strings and base-64\<close>

text \<open>
  A \<open>Uint8Array\<close> is a list of bytes. The client moves byte arrays through strings with
  \<open>btoa(String.fromCharCode(...bytes))\<close> and back with
  \<open>Uint8Array.from(atob(s), c => c.charCodeAt(0))\<close>; \<open>btoa_bytes\<close> and
  \<open>atob_bytes\<close> are these two compositions. \<open>btoa\<close> is base-64 with padding;
  \<open>atob\<close> is the platform's forgiving decoder: it drops ASCII whitespace, drops one or
  two trailing \<open>=\<close> when the length is a multiple of four, and raises on a length of
  1 modulo 4 or on a character outside the alphabet.
\<close>

type_synonym byte = "8 word"
type_synonym bytes = "byte list"

definition b64_alphabet :: string where
  "b64_alphabet = ''ABCDEFGHIJKLMNOPQRSTUVWXYZabcdefghijklmnopqrstuvwxyz0123456789+/''"


fun b64_index :: "string \<Rightarrow> char \<Rightarrow> nat option" where
  "b64_index [] c = None"
| "b64_index (x # xs) c = (if x = c then Some 0 else map_option Suc (b64_index xs c))"

definition b64_value :: "char \<Rightarrow> nat option" where
  "b64_value c = b64_index b64_alphabet c"



fun decode_sextets :: "nat list \<Rightarrow> bytes" where
  "decode_sextets (p # q # r # s # rest) =
     of_nat (p * 4 + q div 16) # of_nat ((q mod 16) * 16 + r div 4)
       # of_nat ((r mod 4) * 64 + s) # decode_sextets rest"
| "decode_sextets [p, q, r] = [of_nat (p * 4 + q div 16), of_nat ((q mod 16) * 16 + r div 4)]"
| "decode_sextets [p, q] = [of_nat (p * 4 + q div 16)]"
| "decode_sextets [p] = []"
| "decode_sextets [] = []"

definition ascii_whitespace :: "char \<Rightarrow> bool" where
  "ascii_whitespace c = (c \<in> set [CHR 0x09, CHR 0x0A, CHR 0x0C, CHR 0x0D, CHR 0x20])"

definition strip_padding :: "string \<Rightarrow> string" where
  "strip_padding d =
     (if length d mod 4 = 0 then
        (if 2 \<le> length d \<and> drop (length d - 2) d = ''==''
         then take (length d - 2) d
         else if 1 \<le> length d \<and> drop (length d - 1) d = ''=''
         then take (length d - 1) d
         else d)
      else d)"

fun all_values :: "string \<Rightarrow> nat list option" where
  "all_values [] = Some []"
| "all_values (c # cs) =
     (case b64_value c of
        None \<Rightarrow> None
      | Some v \<Rightarrow> (case all_values cs of None \<Rightarrow> None | Some vs \<Rightarrow> Some (v # vs)))"

definition atob_bytes :: "string \<Rightarrow> bytes option" where
  "atob_bytes s =
     (let d = strip_padding (filter (\<lambda>c. \<not> ascii_whitespace c) s)
      in if length d mod 4 = 1 then None
         else map_option decode_sextets (all_values d))"

section \<open>Client: message encryption\<close>

text \<open>
  The client calls the platform for AES-GCM, HKDF and the UTF-8 text codec. These are not
  code of the repository; they are the fields of a record that every client function
  takes as its first argument. \<open>aes_gcm_encrypt key iv plaintext\<close> is the ciphertext
  followed by the 16-byte tag; \<open>aes_gcm_decrypt\<close> is \<open>None\<close> when the platform raises;
  \<open>hkdf_sha256 ikm salt info\<close> is the derived AES-GCM key. A JavaScript string is a
  \<open>string\<close>. The clock reading and the random bytes are arguments.
\<close>

record 'k platform =
  aes_gcm_encrypt :: "'k \<Rightarrow> bytes \<Rightarrow> bytes \<Rightarrow> bytes"
  aes_gcm_decrypt :: "'k \<Rightarrow> bytes \<Rightarrow> bytes \<Rightarrow> bytes option"
  hkdf_sha256 :: "bytes \<Rightarrow> bytes \<Rightarrow> bytes \<Rightarrow> 'k"
  text_encode :: "string \<Rightarrow> bytes"
  text_decode :: "bytes \<Rightarrow> string"

record encrypted_message =
  em_ciphertext :: string
  em_iv :: string
  em_tag :: string
  em_timestamp :: int
  em_sequenceNumber :: int
  em_nonce :: string

datatype client_error =
    MissingReplayProtectionFields
  | InvalidNonceFormat
  | InvalidNonceGenerated
  | InvalidCharacterError
  | FailedToDecrypt


definition resetSequenceCounter :: "(string \<rightharpoonup> int) \<Rightarrow> string \<Rightarrow> (string \<rightharpoonup> int)" where
  "resetSequenceCounter sequenceCounters conversationId = sequenceCounters(conversationId := None)"

text \<open>Every counter the client holds was written by \<open>getSequenceNumber\<close>, starting
  from the empty map, so it is at least 1.\<close>

definition counters_ok :: "(string \<rightharpoonup> int) \<Rightarrow> bool" where
  "counters_ok sequenceCounters = (\<forall>c v. sequenceCounters c = Some v \<longrightarrow> 1 \<le> v)"


text \<open>\<open>nonce.length >= 16 && /^[A-Za-z0-9+/]+=*$/.test(nonce)\<close>: the longest prefix of
  alphabet characters is not empty and only \<open>=\<close> follows it.\<close>

definition validateNonce :: "string \<Rightarrow> bool" where
  "validateNonce n =
     (16 \<le> length n
      \<and> takeWhile (\<lambda>c. c \<in> set b64_alphabet) n \<noteq> []
      \<and> list_all (\<lambda>c. c = CHR ''='') (dropWhile (\<lambda>c. c \<in> set b64_alphabet) n))"


text \<open>The decoder reads the clock only to print warnings about the age of the message;
  the warnings are not part of its result.\<close>

definition decryptMessage :: "'k platform \<Rightarrow> encrypted_message \<Rightarrow> 'k \<Rightarrow> client_error + string" where
  "decryptMessage pf encrypted sessionKey =
     (if em_nonce encrypted = [] \<or> em_timestamp encrypted = 0 \<or> em_sequenceNumber encrypted = 0
      then Inl MissingReplayProtectionFields
      else if \<not> validateNonce (em_nonce encrypted) then Inl InvalidNonceFormat
      else
        (case atob_bytes (em_iv encrypted) of
           None \<Rightarrow> Inl InvalidCharacterError
         | Some ivBytes \<Rightarrow>
            (case atob_bytes (em_ciphertext encrypted) of
               None \<Rightarrow> Inl InvalidCharacterError
             | Some ciphertextBytes \<Rightarrow>
                (case atob_bytes (em_tag encrypted) of
                   None \<Rightarrow> Inl InvalidCharacterError
                 | Some tagBytes \<Rightarrow>
                    (case aes_gcm_decrypt pf sessionKey ivBytes (ciphertextBytes @ tagBytes) of
                       None \<Rightarrow> Inl FailedToDecrypt
                     | Some decrypted \<Rightarrow> Inr (text_decode pf decrypted))))))"



section \<open>Client: session-key derivation and the signed handshake form\<close>



text \<open>
  \<open>JSON.stringify\<close> of an object literal whose values are strings and an integer: the
  members in the order of the literal, no white space between tokens. A string is quoted
  with the two-character escapes for backspace, tab, line feed, form feed, carriage
  return, the quotation mark and the backslash, and \<open>\u00XX\<close> for the other characters
  below 0x20. An integer (of magnitude below \<open>10^21\<close>, as a clock reading is) is
  written in decimal.
\<close>

definition hex_digit :: "nat \<Rightarrow> char" where
  "hex_digit n = ''0123456789abcdef'' ! (n mod 16)"

definition json_escape :: "char \<Rightarrow> string" where
  "json_escape c =
     (let n = (of_char c :: nat) in
      if n = 0x08 then [CHR 0x5C, CHR ''b'']
      else if n = 0x09 then [CHR 0x5C, CHR ''t'']
      else if n = 0x0A then [CHR 0x5C, CHR ''n'']
      else if n = 0x0C then [CHR 0x5C, CHR ''f'']
      else if n = 0x0D then [CHR 0x5C, CHR ''r'']
      else if n = 0x22 then [CHR 0x5C, CHR 0x22]
      else if n = 0x5C then [CHR 0x5C, CHR 0x5C]
      else if n < 0x20
      then [CHR 0x5C, CHR ''u'', CHR ''0'', CHR ''0'', hex_digit (n div 16), hex_digit (n mod 16)]
      else [c])"

definition json_quote :: "string \<Rightarrow> string" where
  "json_quote s = [CHR 0x22] @ concat (map json_escape s) @ [CHR 0x22]"

function decimal :: "int \<Rightarrow> string" where
  "decimal n =
     (if n < 10 then [''0123456789'' ! nat n]
      else decimal (n div 10) @ [''0123456789'' ! nat (n mod 10)])"
  by pat_completeness auto
termination
  by (relation "measure nat") auto

declare decimal.simps [simp del]

definition json_number :: "int \<Rightarrow> string" where
  "json_number n = (if n < 0 then CHR ''-'' # decimal (- n) else decimal n)"

definition json_member :: "string \<Rightarrow> string \<Rightarrow> string" where
  "json_member name val = json_quote name @ '':'' @ val"

text \<open>The object literal every signing and verifying site passes to
  \<open>JSON.stringify\<close>: \<open>{type, fromUserId, toUserId, publicKey, timestamp}\<close>.\<close>

definition stringify_exchange :: "string \<Rightarrow> string \<Rightarrow> string \<Rightarrow> string \<Rightarrow> int \<Rightarrow> string" where
  "stringify_exchange type fromUserId toUserId publicKey timestamp =
     ''{'' @ json_member ''type'' (json_quote type)
       @ '','' @ json_member ''fromUserId'' (json_quote fromUserId)
       @ '','' @ json_member ''toUserId'' (json_quote toUserId)
       @ '','' @ json_member ''publicKey'' (json_quote publicKey)
       @ '','' @ json_member ''timestamp'' (json_number timestamp)
       @ ''}''"

text \<open>The white space of JSON: space, tab, line feed, carriage return.\<close>

definition blank :: "char \<Rightarrow> bool" where
  "blank c = ((of_char c :: nat) \<in> {0x20, 0x09, 0x0A, 0x0D})"

record key_exchange_message =
  kx_type :: string
  kx_fromUserId :: string
  kx_toUserId :: string
  kx_publicKey :: string
  kx_timestamp :: int

text \<open>\<open>initiateKeyExchange\<close>: the message the initiator builds and the bytes it signs.\<close>

definition initiate_message :: "string \<Rightarrow> string \<Rightarrow> string \<Rightarrow> int \<Rightarrow> key_exchange_message" where
  "initiate_message recipientId myUserId publicKeyBase64 now =
     \<lparr>kx_type = ''initiate'', kx_fromUserId = myUserId, kx_toUserId = recipientId,
      kx_publicKey = publicKeyBase64, kx_timestamp = now\<rparr>"

definition initiate_signed_bytes :: "'k platform \<Rightarrow> string \<Rightarrow> string \<Rightarrow> string \<Rightarrow> int \<Rightarrow> bytes" where
  "initiate_signed_bytes pf recipientId myUserId publicKeyBase64 now =
     (let message = initiate_message recipientId myUserId publicKeyBase64 now;
          messageData = stringify_exchange (kx_type message) (kx_fromUserId message)
                          (kx_toUserId message) (kx_publicKey message) (kx_timestamp message)
      in text_encode pf messageData)"

text \<open>\<open>handleKeyExchangeResponse\<close>: the bytes a received message is verified against.\<close>

definition verified_bytes :: "'k platform \<Rightarrow> key_exchange_message \<Rightarrow> bytes" where
  "verified_bytes pf response =
     text_encode pf
       (stringify_exchange (kx_type response) (kx_fromUserId response) (kx_toUserId response)
          (kx_publicKey response) (kx_timestamp response))"

text \<open>\<open>establishSession\<close>, responder path: the bytes the responder signs for its
  response, and the bytes it verifies the initiator's signature against, built from the
  pending exchange the relay returned.\<close>

definition responder_signed_bytes :: "'k platform \<Rightarrow> string \<Rightarrow> string \<Rightarrow> string \<Rightarrow> int \<Rightarrow> bytes" where
  "responder_signed_bytes pf userId recipientId myEcdhPublicKeyBase64 responseTimestamp =
     text_encode pf
       (stringify_exchange ''response'' userId recipientId myEcdhPublicKeyBase64 responseTimestamp)"

definition responder_verified_bytes :: "'k platform \<Rightarrow> key_exchange_message \<Rightarrow> bytes" where
  "responder_verified_bytes pf exchange =
     text_encode pf
       (stringify_exchange ''initiate'' (kx_fromUserId exchange) (kx_toUserId exchange)
          (kx_publicKey exchange) (kx_timestamp exchange))"

section \<open>A sample platform\<close>

text \<open>A small instance of the platform interface, on which the model can be run: a
  byte-wise shift cipher with a constant tag, a checksum in place of HKDF, one byte per
  character. It stands for the interface only, not for AES-GCM or HKDF.\<close>

definition sample_platform :: "byte platform" where
  "sample_platform =
     \<lparr>aes_gcm_encrypt = (\<lambda>k nonce m. map (\<lambda>b. b + k) m @ replicate 16 k),
      aes_gcm_decrypt = (\<lambda>k nonce c.
         if 16 \<le> length c \<and> drop (length c - 16) c = replicate 16 k
         then Some (map (\<lambda>b. b - k) (take (length c - 16) c)) else None),
      hkdf_sha256 = (\<lambda>ikm salt info. sum_list (ikm @ salt @ info)),
      text_encode = map (\<lambda>c. of_nat (of_char c)),
      text_decode = map (\<lambda>b. char_of (unat b))\<rparr>"

section \<open>Relay: confirmation of a key exchange\<close>

record pending_exchange =
  px_fromUserId :: string
  px_toUserId :: string
  px_publicKey :: string
  px_signature :: string
  px_timestamp :: "int option"
  px_createdAt :: int
  px_confirmedBy :: "string list option"

datatype confirm_response =
    ConfirmMissingFields
  | ConfirmNotFound
  | Confirmed bool

definition status_of :: "confirm_response \<Rightarrow> nat" where
  "status_of r = (case r of ConfirmMissingFields \<Rightarrow> 400 | ConfirmNotFound \<Rightarrow> 404 | Confirmed b \<Rightarrow> 200)"

text \<open>The handler of \<open>POST /confirm\<close>. \<open>userId\<close> is the authenticated caller; the
  table is the module's \<open>pendingExchanges\<close> map.\<close>

definition confirm ::
  "string \<Rightarrow> string option \<Rightarrow> string option \<Rightarrow> (string \<rightharpoonup> pending_exchange)
     \<Rightarrow> confirm_response \<times> (string \<rightharpoonup> pending_exchange)" where
  "confirm userId exchangeId confirmationHash pendingExchanges =
     (if \<not> truthy_string exchangeId \<or> \<not> truthy_string confirmationHash
      then (ConfirmMissingFields, pendingExchanges)
      else
        (case exchangeId of
           None \<Rightarrow> (ConfirmMissingFields, pendingExchanges)
         | Some xid \<Rightarrow>
            (case pendingExchanges xid of
               None \<Rightarrow> (ConfirmNotFound, pendingExchanges)
             | Some exchange \<Rightarrow>
                let confirmed0 = (case px_confirmedBy exchange of None \<Rightarrow> [] | Some l \<Rightarrow> l);
                    confirmedBy = (if userId \<in> set confirmed0 then confirmed0
                                   else confirmed0 @ [userId]);
                    bothConfirmed =
                      (2 \<le> length confirmedBy
                       \<or> (px_fromUserId exchange \<in> set confirmedBy
                           \<and> px_toUserId exchange \<in> set confirmedBy))
                in if bothConfirmed
                   then (Confirmed True, pendingExchanges(xid := None))
                   else (Confirmed False,
                         pendingExchanges(xid \<mapsto> exchange\<lparr>px_confirmedBy := Some confirmedBy\<rparr>)))))"

section \<open>Relay: storing a message\<close>











section \<open>Properties of the replay-protection middleware\<close>

lemma replay_fields_Some_iff:
  "replay_fields body = Some (n, t, q) \<longleftrightarrow>
     body_nonce body = Some n \<and> n \<noteq> [] \<and> body_timestamp body = Some t \<and> t \<noteq> 0
       \<and> body_sequenceNumber body = Some q"
  by (auto simp: replay_fields_def truthy_string_def truthy_number_def split: option.splits)

lemma replay_fields_None_iff:
  "replay_fields body = None \<longleftrightarrow>
     \<not> truthy_string (body_nonce body) \<or> \<not> truthy_number (body_timestamp body)
       \<or> body_sequenceNumber body = None"
  by (auto simp: replay_fields_def truthy_string_def truthy_number_def split: option.splits)



lemma conversationKey_inj:
  "hyphen_free a \<Longrightarrow> hyphen_free c \<Longrightarrow> conversationKey a b = conversationKey c d \<Longrightarrow> a = c \<and> b = d"
proof (induction a arbitrary: c)
  case Nil
  then show ?case by (cases c) (auto simp: conversationKey_def hyphen_free_def)
next
  case (Cons x xs)
  then show ?case by (cases c) (auto simp: conversationKey_def hyphen_free_def)
qed




lemma sequence_layer_Respond:
  "fst (sequence_layer db sender recipient q tr) = Respond code e \<Longrightarrow>
     sender \<noteq> [] \<and> truthy_string recipient \<and>
     ((code = 400 \<and> e = InvalidSequenceNumber
         \<and> (\<exists>l. lastSeen db tr sender (the recipient) = Some l \<and> q \<le> l))
      \<or> (code = 500 \<and> e = ReplayCheckFailed \<and> lastSeen db tr sender (the recipient) = None))"
  by (auto simp: sequence_layer_def lastSeen_def truthy_string_def Let_def
           split: option.splits if_splits)

lemma replayProtection_Respond:
  assumes "fst (replayProtection now db sender body st) = Respond code e"
  shows "(code = 400 \<and> e = MissingReplayFields
            \<and> (\<not> truthy_string (body_nonce body) \<or> \<not> truthy_number (body_timestamp body)
                 \<or> body_sequenceNumber body = None))
       \<or> (\<exists>n t q. body_nonce body = Some n \<and> body_timestamp body = Some t
             \<and> body_sequenceNumber body = Some q
             \<and> ((code = 400 \<and> e = MessageFromFuture \<and> now + 60000 < t)
               \<or> (code = 400 \<and> e = MessageTooOld \<and> t < now - 300000)
               \<or> (code = 400 \<and> e = DuplicateNonce \<and> nonceCache st n \<noteq> None)
               \<or> (code = 400 \<and> e = InvalidSequenceNumber
                     \<and> (\<exists>l. lastSeen db (sequenceTracking st) sender
                               (the (body_recipientId body)) = Some l \<and> q \<le> l))
               \<or> (code = 500 \<and> e = ReplayCheckFailed
                     \<and> lastSeen db (sequenceTracking st) sender
                          (the (body_recipientId body)) = None)))"
proof (cases "replay_fields body")
  case None
  with assms show ?thesis
    by (simp add: replayProtection_def replay_fields_None_iff)
next
  case (Some f)
  obtain n t q where f: "f = (n, t, q)" by (cases f)
  from Some f have pres: "body_nonce body = Some n" "body_timestamp body = Some t"
    "body_sequenceNumber body = Some q"
    by (simp_all add: replay_fields_Some_iff)
  consider (future) "now - t < - 60000"
    | (old) "\<not> now - t < - 60000" "now - t > MAX_NONCE_AGE"
    | (dup) "\<not> now - t < - 60000" "\<not> now - t > MAX_NONCE_AGE" "nonceCache st n \<noteq> None"
    | (seq) "\<not> now - t < - 60000" "\<not> now - t > MAX_NONCE_AGE" "nonceCache st n = None"
    by blast
  then show ?thesis
  proof cases
    case future
    with assms Some f pres show ?thesis by (simp add: replayProtection_def)
  next
    case old
    with assms Some f pres show ?thesis
      by (simp add: replayProtection_def MAX_NONCE_AGE_def)
  next
    case dup
    with assms Some f pres show ?thesis
      by (auto simp add: replayProtection_def)
  next
    case seq
    with assms Some f
    have "fst (sequence_layer db sender (body_recipientId body) q (sequenceTracking st))
            = Respond code e"
      by (auto simp: replayProtection_def Let_def split: prod.splits gate_outcome.splits)
    from sequence_layer_Respond [OF this] pres show ?thesis by blast
  qed
qed


lemma tracking_symmetric_update:
  assumes "hyphen_free s" "hyphen_free r" "tracking_symmetric tr"
  shows "tracking_symmetric (tr(conversationKey s r \<mapsto> v, conversationKey r s \<mapsto> v))"
  unfolding tracking_symmetric_def
proof (intro allI impI)
  fix a b
  assume ab: "hyphen_free a \<and> hyphen_free b"
  have k1: "conversationKey a b = conversationKey s r \<longleftrightarrow> a = s \<and> b = r"
    using conversationKey_inj [of a s b r] ab assms by auto
  have k2: "conversationKey a b = conversationKey r s \<longleftrightarrow> a = r \<and> b = s"
    using conversationKey_inj [of a r b s] ab assms by auto
  have k3: "conversationKey b a = conversationKey s r \<longleftrightarrow> b = s \<and> a = r"
    using conversationKey_inj [of b s a r] ab assms by auto
  have k4: "conversationKey b a = conversationKey r s \<longleftrightarrow> b = r \<and> a = s"
    using conversationKey_inj [of b r a s] ab assms by auto
  from assms(3) ab have old: "tr (conversationKey a b) = tr (conversationKey b a)"
    by (simp add: tracking_symmetric_def)
  consider (fwd) "a = s" "b = r" | (bwd) "a = r" "b = s"
    | (other) "\<not> (a = s \<and> b = r)" "\<not> (a = r \<and> b = s)"
    by blast
  then show "(tr(conversationKey s r \<mapsto> v, conversationKey r s \<mapsto> v)) (conversationKey a b)
           = (tr(conversationKey s r \<mapsto> v, conversationKey r s \<mapsto> v)) (conversationKey b a)"
  proof cases
    case fwd
    then show ?thesis by simp
  next
    case bwd
    then show ?thesis by simp
  next
    case other
    then have "conversationKey a b \<noteq> conversationKey s r"
      "conversationKey a b \<noteq> conversationKey r s"
      "conversationKey b a \<noteq> conversationKey s r"
      "conversationKey b a \<noteq> conversationKey r s"
      using k1 k2 k3 k4 by blast+
    then show ?thesis using old by (simp only: fun_upd_apply if_False)
  qed
qed





lemma replayProtection_outcome:
  "fst (replayProtection now db sender body st) =
     (case replay_fields body of
        None \<Rightarrow> Respond 400 MissingReplayFields
      | Some (n, t, q) \<Rightarrow>
          if now - t < - 60000 then Respond 400 MessageFromFuture
          else if now - t > MAX_NONCE_AGE then Respond 400 MessageTooOld
          else if nonceCache st n \<noteq> None then Respond 400 DuplicateNonce
          else fst (sequence_layer db sender (body_recipientId body) q (sequenceTracking st)))"
  by (auto simp: replayProtection_def Let_def split: option.splits prod.splits gate_outcome.splits)







lemma evicted_timestamp_is_stale:
  assumes "cache n = Some d" and "sweep now1 cache n = None" and "now1 \<le> now2"
      and "body_timestamp body = Some (ne_timestamp d)"
  shows "fst (replayProtection now2 db sender body st) = Respond 400 MessageTooOld
       \<or> fst (replayProtection now2 db sender body st) = Respond 400 MissingReplayFields"
proof -
  from assms(1,2) have "now1 - ne_timestamp d > MAX_NONCE_AGE"
    by (simp add: sweep_def split: if_splits)
  with assms(3) have old: "now2 - ne_timestamp d > MAX_NONCE_AGE" by simp
  then have nf: "\<not> now2 - ne_timestamp d < - 60000" by (simp add: MAX_NONCE_AGE_def)
  show ?thesis
  proof (cases "replay_fields body")
    case None
    then show ?thesis by (simp add: replayProtection_outcome)
  next
    case (Some f)
    obtain n' t q where f: "f = (n', t, q)" by (cases f)
    with Some assms(4) have "t = ne_timestamp d" by (simp add: replay_fields_Some_iff)
    with Some f old nf show ?thesis by (simp add: replayProtection_outcome)
  qed
qed




lemma tracking_symmetric_empty: "tracking_symmetric Map.empty"
  by (simp add: tracking_symmetric_def)

lemma sequence_layer_symmetric:
  assumes hf: "hyphen_free sender" "\<forall>r. recipient = Some r \<longrightarrow> hyphen_free r"
      and sym: "tracking_symmetric tr"
  shows "tracking_symmetric (snd (sequence_layer db sender recipient q tr))"
proof (cases recipient)
  case None
  with sym show ?thesis by (simp add: sequence_layer_def truthy_string_def)
next
  case (Some r)
  with hf have hfr: "hyphen_free r" by simp
  note upd = tracking_symmetric_update [OF hf(1) hfr]
  show ?thesis
    using Some sym upd [OF sym] upd [OF upd [OF sym]]
    by (auto simp: sequence_layer_def Let_def truthy_string_def split: option.splits)
qed

lemma replayProtection_symmetric:
  assumes hf: "hyphen_free sender" "\<forall>r. body_recipientId body = Some r \<longrightarrow> hyphen_free r"
      and sym: "tracking_symmetric (sequenceTracking st)"
  shows "tracking_symmetric (sequenceTracking (snd (replayProtection now db sender body st)))"
proof (cases "replay_fields body")
  case None
  with sym show ?thesis by (simp add: replayProtection_def)
next
  case (Some f)
  obtain n t q where f: "f = (n, t, q)" by (cases f)
  obtain out tr' where sl:
    "sequence_layer db sender (body_recipientId body) q (sequenceTracking st) = (out, tr')"
    by (cases "sequence_layer db sender (body_recipientId body) q (sequenceTracking st)")
  from sequence_layer_symmetric [OF hf sym, of db q] sl have "tracking_symmetric tr'" by simp
  with Some f sl sym show ?thesis
    by (auto simp: replayProtection_def Let_def split: gate_outcome.splits)
qed




section \<open>Properties of the base-64 codec\<close>


































section \<open>Properties of the client\<close>







lemma counters_ok_reset: "counters_ok cs \<Longrightarrow> counters_ok (resetSequenceCounter cs c)"
  by (simp add: counters_ok_def resetSequenceCounter_def)









text \<open>
  Claim C9 (the replay triple is outside the AEAD), as amended. Two records that agree
  on ciphertext, IV and tag, whose timestamps and sequence numbers are non-zero and whose
  nonces pass \<open>validateNonce\<close>, decrypt to the same result under any key: the same
  plaintext or the same failure. Nonce, timestamp and sequence number do not reach the
  AES-GCM call. A timestamp or sequence number of 0 stops the decoder before it.
\<close>

theorem replay_triple_outside_aead:
  assumes "em_ciphertext e1 = em_ciphertext e2"
      and "em_iv e1 = em_iv e2"
      and "em_tag e1 = em_tag e2"
      and "em_timestamp e1 \<noteq> 0" and "em_timestamp e2 \<noteq> 0"
      and "em_sequenceNumber e1 \<noteq> 0" and "em_sequenceNumber e2 \<noteq> 0"
      and "validateNonce (em_nonce e1)" and "validateNonce (em_nonce e2)"
  shows "decryptMessage pf e1 K = decryptMessage pf e2 K"
proof -
  from assms(8,9) have "em_nonce e1 \<noteq> []" "em_nonce e2 \<noteq> []"
    by (auto simp: validateNonce_def)
  with assms show ?thesis by (simp add: decryptMessage_def cong: option.case_cong)
qed

theorem replay_triple_outside_aead_witness:
  "decryptMessage sample_platform
     \<lparr>em_ciphertext = ''a2hvb3I='', em_iv = ''AQEBAQEBAQEBAQEB'',
      em_tag = ''AwMDAwMDAwMDAwMDAwMDAw=='', em_timestamp = 1700000000000,
      em_sequenceNumber = 1, em_nonce = ''AgICAgICAgICAgICAgICAg==''\<rparr> 3
   = decryptMessage sample_platform
     \<lparr>em_ciphertext = ''a2hvb3I='', em_iv = ''AQEBAQEBAQEBAQEB'',
      em_tag = ''AwMDAwMDAwMDAwMDAwMDAw=='', em_timestamp = 1800000000000,
      em_sequenceNumber = 7, em_nonce = ''CQkJCQkJCQkJCQkJCQkJCQ==''\<rparr> 3"
proof -
  have v1: "validateNonce ''AgICAgICAgICAgICAgICAg==''" by code_simp
  have v2: "validateNonce ''CQkJCQkJCQkJCQkJCQkJCQ==''" by code_simp
  show ?thesis
    by (rule replay_triple_outside_aead) (simp_all add: v1 v2)
qed

theorem replay_triple_zero_counterexample:
  "decryptMessage sample_platform
     \<lparr>em_ciphertext = ''a2hvb3I='', em_iv = ''AQEBAQEBAQEBAQEB'',
      em_tag = ''AwMDAwMDAwMDAwMDAwMDAw=='', em_timestamp = 1700000000000,
      em_sequenceNumber = 1, em_nonce = ''AgICAgICAgICAgICAgICAg==''\<rparr> 3
     = Inr ''hello''
   \<and> decryptMessage sample_platform
     \<lparr>em_ciphertext = ''a2hvb3I='', em_iv = ''AQEBAQEBAQEBAQEB'',
      em_tag = ''AwMDAwMDAwMDAwMDAwMDAw=='', em_timestamp = 1700000000000,
      em_sequenceNumber = 0, em_nonce = ''AgICAgICAgICAgICAgICAg==''\<rparr> 3
     = Inl MissingReplayProtectionFields
   \<and> validateNonce ''AgICAgICAgICAgICAgICAg==''"
  by code_simp

text \<open>
  Claim C10 (zero-valued replay fields). A record whose sequence number or timestamp is
  0 makes \<open>decryptMessage\<close> fail with the missing-fields error. The relay's presence
  test passes a body whose sequence number is 0 when nonce and timestamp are truthy, so
  the middleware does not answer with the missing-fields error; a body whose timestamp is
  0 fails the presence test and is answered 400 with the missing-fields error.
\<close>

theorem zero_fields_read_as_missing:
  "(em_sequenceNumber e = 0 \<or> em_timestamp e = 0 \<longrightarrow>
      decryptMessage pf e K = Inl MissingReplayProtectionFields)
   \<and> (body_sequenceNumber body = Some 0 \<and> truthy_string (body_nonce body)
        \<and> truthy_number (body_timestamp body) \<longrightarrow>
      replay_fields body \<noteq> None
      \<and> fst (replayProtection now db sender body st) \<noteq> Respond 400 MissingReplayFields)
   \<and> (body_timestamp body = Some 0 \<longrightarrow>
      replay_fields body = None
      \<and> fst (replayProtection now db sender body st) = Respond 400 MissingReplayFields)"
proof (intro conjI impI)
  assume "em_sequenceNumber e = 0 \<or> em_timestamp e = 0"
  then show "decryptMessage pf e K = Inl MissingReplayProtectionFields"
    by (auto simp: decryptMessage_def)
next
  assume a: "body_sequenceNumber body = Some 0 \<and> truthy_string (body_nonce body)
        \<and> truthy_number (body_timestamp body)"
  then show p: "replay_fields body \<noteq> None"
    by (simp add: replay_fields_None_iff)
  show "fst (replayProtection now db sender body st) \<noteq> Respond 400 MissingReplayFields"
  proof
    assume "fst (replayProtection now db sender body st) = Respond 400 MissingReplayFields"
    from replayProtection_Respond [OF this] a show False by auto
  qed
next
  assume a: "body_timestamp body = Some 0"
  then show p: "replay_fields body = None"
    by (simp add: replay_fields_None_iff truthy_number_def)
  then show "fst (replayProtection now db sender body st) = Respond 400 MissingReplayFields"
    by (simp add: replayProtection_def)
qed

theorem zero_fields_read_as_missing_witness:
  "decryptMessage sample_platform
     \<lparr>em_ciphertext = ''a2hvb3I='', em_iv = ''AQEBAQEBAQEBAQEB'',
      em_tag = ''AwMDAwMDAwMDAwMDAwMDAw=='', em_timestamp = 1700000000000,
      em_sequenceNumber = 0, em_nonce = ''AgICAgICAgICAgICAgICAg==''\<rparr> 3
     = Inl MissingReplayProtectionFields
   \<and> replay_fields \<lparr>body_nonce = Some ''AgICAgICAgICAgICAgICAg=='',
         body_timestamp = Some 999000, body_sequenceNumber = Some 0,
         body_recipientId = Some ''bob''\<rparr> \<noteq> None
   \<and> fst (replayProtection 1000000 \<lparr>online = True, docs = []\<rparr> ''alice''
         \<lparr>body_nonce = Some ''AgICAgICAgICAgICAgICAg=='',
          body_timestamp = Some 999000, body_sequenceNumber = Some 0,
          body_recipientId = Some ''bob''\<rparr> initial_gate) \<noteq> Respond 400 MissingReplayFields
   \<and> fst (replayProtection 1000000 \<lparr>online = True, docs = []\<rparr> ''alice''
         \<lparr>body_nonce = Some ''AgICAgICAgICAgICAgICAg=='',
          body_timestamp = Some 0, body_sequenceNumber = Some 1,
          body_recipientId = Some ''bob''\<rparr> initial_gate) = Respond 400 MissingReplayFields"
  using zero_fields_read_as_missing [of
      "\<lparr>em_ciphertext = ''a2hvb3I='', em_iv = ''AQEBAQEBAQEBAQEB'',
      em_tag = ''AwMDAwMDAwMDAwMDAwMDAw=='', em_timestamp = 1700000000000,
      em_sequenceNumber = 0, em_nonce = ''AgICAgICAgICAgICAgICAg==''\<rparr>"
      sample_platform 3
      "\<lparr>body_nonce = Some ''AgICAgICAgICAgICAgICAg=='',
         body_timestamp = Some 999000, body_sequenceNumber = Some 0,
         body_recipientId = Some ''bob''\<rparr>"
      1000000 "\<lparr>online = True, docs = []\<rparr>" "''alice''" initial_gate]
    zero_fields_read_as_missing [of
      "\<lparr>em_ciphertext = ''a2hvb3I='', em_iv = ''AQEBAQEBAQEBAQEB'',
      em_tag = ''AwMDAwMDAwMDAwMDAwMDAw=='', em_timestamp = 1700000000000,
      em_sequenceNumber = 0, em_nonce = ''AgICAgICAgICAgICAgICAg==''\<rparr>"
      sample_platform 3
      "\<lparr>body_nonce = Some ''AgICAgICAgICAgICAgICAg=='',
          body_timestamp = Some 0, body_sequenceNumber = Some 1,
          body_recipientId = Some ''bob''\<rparr>"
      1000000 "\<lparr>online = True, docs = []\<rparr>" "''alice''" initial_gate]
  by (simp add: truthy_string_def truthy_number_def)

lemma stringify_exchange_text:
  \<open>stringify_exchange ty src dst pk ts =
     ''{"type":'' @ json_quote ty @ '',"fromUserId":'' @ json_quote src
       @ '',"toUserId":'' @ json_quote dst @ '',"publicKey":'' @ json_quote pk
       @ '',"timestamp":'' @ json_number ts @ ''}''\<close>
  by (simp add: stringify_exchange_def json_member_def json_quote_def json_escape_def)

lemma hex_digit_not_blank: "\<not> blank (hex_digit n)"
proof -
  have "hex_digit n \<in> set ''0123456789abcdef''"
    unfolding hex_digit_def by (rule nth_mem) simp
  then show ?thesis by (auto simp: blank_def)
qed

lemma filter_blank_escape:
  "filter blank (json_escape c) = (if (of_char c :: nat) = 0x20 then [c] else [])"
proof -
  have b: "\<not> blank (CHR 0x5C)" "\<not> blank (CHR ''b'')" "\<not> blank (CHR ''t'')" "\<not> blank (CHR ''n'')"
    "\<not> blank (CHR ''f'')" "\<not> blank (CHR ''r'')" "\<not> blank (CHR 0x22)" "\<not> blank (CHR ''u'')"
    "\<not> blank (CHR ''0'')"
    by (simp_all add: blank_def)
  define n where "n = (of_char c :: nat)"
  have bl: "blank c \<longleftrightarrow> n = 32 \<or> n = 9 \<or> n = 10 \<or> n = 13"
    by (simp add: blank_def n_def)
  have je: "json_escape c =
     (if n = 8 then [CHR 0x5C, CHR ''b'']
      else if n = 9 then [CHR 0x5C, CHR ''t'']
      else if n = 10 then [CHR 0x5C, CHR ''n'']
      else if n = 12 then [CHR 0x5C, CHR ''f'']
      else if n = 13 then [CHR 0x5C, CHR ''r'']
      else if n = 34 then [CHR 0x5C, CHR 0x22]
      else if n = 92 then [CHR 0x5C, CHR 0x5C]
      else if n < 32
      then [CHR 0x5C, CHR ''u'', CHR ''0'', CHR ''0'', hex_digit (n div 16), hex_digit (n mod 16)]
      else [c])"
    unfolding json_escape_def n_def Let_def by simp
  have "filter blank (json_escape c) = (if n = 32 then [c] else [])"
    unfolding je using hex_digit_not_blank b bl by simp
  then show ?thesis by (simp add: n_def)
qed

lemma filter_blank_quote:
  "filter blank (json_quote s) = filter (\<lambda>c. (of_char c :: nat) = 0x20) s"
proof -
  have "filter blank (concat (map json_escape s)) = filter (\<lambda>c. (of_char c :: nat) = 0x20) s"
    by (induction s) (simp_all add: filter_blank_escape)
  moreover have "\<not> blank (CHR 0x22)" by (simp add: blank_def)
  ultimately show ?thesis by (simp add: json_quote_def)
qed

lemma decimal_digits: "set (decimal n) \<subseteq> set ''0123456789''"
proof (induction n rule: decimal.induct)
  case (1 n)
  show ?case
  proof (cases "n < 10")
    case True
    have "''0123456789'' ! nat n \<in> set ''0123456789''"
      by (rule nth_mem) (use True in simp)
    with True show ?thesis by (subst decimal.simps) simp
  next
    case False
    have "''0123456789'' ! nat (n mod 10) \<in> set ''0123456789''"
      by (rule nth_mem) (simp add: nat_less_iff)
    with False 1 show ?thesis by (subst decimal.simps) simp
  qed
qed

lemma filter_blank_number: "filter blank (json_number n) = []"
proof -
  have "\<And>x. x \<in> set ''0123456789'' \<Longrightarrow> \<not> blank x"
    by (auto simp: blank_def)
  with decimal_digits have "\<And>m x. x \<in> set (decimal m) \<Longrightarrow> \<not> blank x" by blast
  moreover have "\<not> blank (CHR ''-'')" by (simp add: blank_def)
  ultimately show ?thesis by (simp add: json_number_def filter_empty_conv)
qed

lemma filter_blank_stringify:
  "filter blank (stringify_exchange ty src dst pk ts)
     = filter (\<lambda>c. (of_char c :: nat) = 0x20) (ty @ src @ dst @ pk)"
  unfolding stringify_exchange_text
  by (simp add: filter_blank_quote filter_blank_number blank_def)

lemma space_code: "(of_char c :: nat) = 0x20 \<longleftrightarrow> c = CHR 0x20"
proof
  assume "(of_char c :: nat) = 0x20"
  then have "(of_char c :: nat) = of_char (CHR 0x20)" by simp
  then show "c = CHR 0x20" by (simp only: of_char_eq_iff)
next
  assume "c = CHR 0x20"
  then show "(of_char c :: nat) = 0x20" by simp
qed

text \<open>
  Claim C4 (canonical signed form), as amended. The bytes the initiator signs are the
  platform's encoding of the object with the five members \<open>type\<close>, \<open>fromUserId\<close>,
  \<open>toUserId\<close>, \<open>publicKey\<close>, \<open>timestamp\<close> in this order, with nothing between the
  tokens: no space follows a colon or a comma. A peer that verifies a message with the same
  five values builds the same bytes, on the responder path and in
  \<open>handleKeyExchangeResponse\<close>, for an initiate and for a response message. The only
  white space in the signed text is the spaces inside the four string values.
\<close>

theorem signed_bytes_canonical:
  \<open>initiate_signed_bytes pf recipientId myUserId publicKey now
       = text_encode pf
           (''{"type":'' @ json_quote ''initiate'' @ '',"fromUserId":'' @ json_quote myUserId
             @ '',"toUserId":'' @ json_quote recipientId @ '',"publicKey":'' @ json_quote publicKey
             @ '',"timestamp":'' @ json_number now @ ''}'')
   \<and> (kx_type m = ''initiate'' \<and> kx_fromUserId m = myUserId \<and> kx_toUserId m = recipientId
        \<and> kx_publicKey m = publicKey \<and> kx_timestamp m = now \<longrightarrow>
          responder_verified_bytes pf m = initiate_signed_bytes pf recipientId myUserId publicKey now
          \<and> verified_bytes pf m = initiate_signed_bytes pf recipientId myUserId publicKey now)
   \<and> (kx_type r = ''response'' \<and> kx_fromUserId r = userId \<and> kx_toUserId r = peerId
        \<and> kx_publicKey r = responseKey \<and> kx_timestamp r = ts \<longrightarrow>
          verified_bytes pf r = responder_signed_bytes pf userId peerId responseKey ts)
   \<and> filter blank (stringify_exchange ty src dst pk t)
        = filter (\<lambda>c. c = CHR 0x20) (ty @ src @ dst @ pk)\<close>
proof (intro conjI impI)
  show \<open>initiate_signed_bytes pf recipientId myUserId publicKey now
       = text_encode pf
           (''{"type":'' @ json_quote ''initiate'' @ '',"fromUserId":'' @ json_quote myUserId
             @ '',"toUserId":'' @ json_quote recipientId @ '',"publicKey":'' @ json_quote publicKey
             @ '',"timestamp":'' @ json_number now @ ''}'')\<close>
    by (simp only: initiate_signed_bytes_def initiate_message_def Let_def
          key_exchange_message.simps stringify_exchange_text)
next
  assume a: "kx_type m = ''initiate'' \<and> kx_fromUserId m = myUserId \<and> kx_toUserId m = recipientId
        \<and> kx_publicKey m = publicKey \<and> kx_timestamp m = now"
  then show "responder_verified_bytes pf m = initiate_signed_bytes pf recipientId myUserId publicKey now"
    by (simp add: responder_verified_bytes_def initiate_signed_bytes_def initiate_message_def)
  from a show "verified_bytes pf m = initiate_signed_bytes pf recipientId myUserId publicKey now"
    by (simp add: verified_bytes_def initiate_signed_bytes_def initiate_message_def)
next
  assume "kx_type r = ''response'' \<and> kx_fromUserId r = userId \<and> kx_toUserId r = peerId
        \<and> kx_publicKey r = responseKey \<and> kx_timestamp r = ts"
  then show "verified_bytes pf r = responder_signed_bytes pf userId peerId responseKey ts"
    by (simp add: verified_bytes_def responder_signed_bytes_def)
next
  show "filter blank (stringify_exchange ty src dst pk t)
        = filter (\<lambda>c. c = CHR 0x20) (ty @ src @ dst @ pk)"
    by (simp only: filter_blank_stringify space_code)
qed

theorem signed_bytes_canonical_witness:
  \<open>responder_verified_bytes sample_platform
      \<lparr>kx_type = ''initiate'', kx_fromUserId = ''a1'', kx_toUserId = ''b2'',
       kx_publicKey = ''cGs='', kx_timestamp = 1700000000000\<rparr>
     = initiate_signed_bytes sample_platform ''b2'' ''a1'' ''cGs='' 1700000000000
   \<and> verified_bytes sample_platform
      \<lparr>kx_type = ''response'', kx_fromUserId = ''b2'', kx_toUserId = ''a1'',
       kx_publicKey = ''cGs='', kx_timestamp = 1700000000001\<rparr>
     = responder_signed_bytes sample_platform ''b2'' ''a1'' ''cGs='' 1700000000001
   \<and> filter blank (stringify_exchange ''initiate'' ''a1'' ''b2'' ''cGs='' 1700000000000) = []\<close>
  using signed_bytes_canonical [of sample_platform "''b2''" "''a1''" "''cGs=''" 1700000000000
      "\<lparr>kx_type = ''initiate'', kx_fromUserId = ''a1'', kx_toUserId = ''b2'',
       kx_publicKey = ''cGs='', kx_timestamp = 1700000000000\<rparr>"
      "\<lparr>kx_type = ''response'', kx_fromUserId = ''b2'', kx_toUserId = ''a1'',
       kx_publicKey = ''cGs='', kx_timestamp = 1700000000001\<rparr>"
      "''b2''" "''a1''" "''cGs=''" 1700000000001
      "''initiate''" "''a1''" "''b2''" "''cGs=''" 1700000000000]
  by simp

theorem signed_form_spacing_counterexample:
  \<open>stringify_exchange ''initiate'' ''a1'' ''b2'' ''cGs='' 1700000000000
     = ''{"type":"initiate","fromUserId":"a1","toUserId":"b2","publicKey":"cGs=","timestamp":1700000000000}''
   \<and> stringify_exchange ''initiate'' ''a1'' ''b2'' ''cGs='' 1700000000000
     \<noteq> ''{"type": "initiate", "fromUserId": "a1", "toUserId": "b2", "publicKey": "cGs=", "timestamp": 1700000000000}''
   \<and> initiate_signed_bytes sample_platform ''b2'' ''a1'' ''cGs='' 1700000000000
     \<noteq> text_encode sample_platform
         ''{"type": "initiate", "fromUserId": "a1", "toUserId": "b2", "publicKey": "cGs=", "timestamp": 1700000000000}''\<close>
  by code_simp

section \<open>Properties of the relay's key-exchange and message routes\<close>

text \<open>
  Claim C5 (confirmation-gated deletion) does not hold of the handler: it counts
  confirmations of any authenticated caller and deletes the exchange once two callers
  have confirmed. An exchange from alice to bob is confirmed by mallory, who is no party
  to it, and then by alice; the second call answers \<open>bothConfirmed = true\<close> and the
  exchange is gone, though bob has not confirmed.
\<close>

theorem confirm_deletes_without_responder:
  "fst (confirm ''alice'' (Some ''x1'') (Some ''h2'')
         (snd (confirm ''mallory'' (Some ''x1'') (Some ''h1'')
            [''x1'' \<mapsto> \<lparr>px_fromUserId = ''alice'', px_toUserId = ''bob'',
                        px_publicKey = ''cGs='', px_signature = ''c2ln'',
                        px_timestamp = Some 1700000000000, px_createdAt = 1700000000100,
                        px_confirmedBy = None\<rparr>]))) = Confirmed True
   \<and> snd (confirm ''alice'' (Some ''x1'') (Some ''h2'')
         (snd (confirm ''mallory'' (Some ''x1'') (Some ''h1'')
            [''x1'' \<mapsto> \<lparr>px_fromUserId = ''alice'', px_toUserId = ''bob'',
                        px_publicKey = ''cGs='', px_signature = ''c2ln'',
                        px_timestamp = Some 1700000000000, px_createdAt = 1700000000100,
                        px_confirmedBy = None\<rparr>]))) ''x1'' = None"
  by (simp add: confirm_def truthy_string_def Let_def)

theorem confirm_deletes_without_responder_witness:
  "status_of (fst (confirm ''alice'' (Some ''x1'') (Some ''h2'')
         (snd (confirm ''mallory'' (Some ''x1'') (Some ''h1'')
            [''x1'' \<mapsto> \<lparr>px_fromUserId = ''alice'', px_toUserId = ''bob'',
                        px_publicKey = ''cGs='', px_signature = ''c2ln'',
                        px_timestamp = Some 1700000000000, px_createdAt = 1700000000100,
                        px_confirmedBy = None\<rparr>])))) = 200
   \<and> ''x1'' \<notin> dom (snd (confirm ''alice'' (Some ''x1'') (Some ''h2'')
         (snd (confirm ''mallory'' (Some ''x1'') (Some ''h1'')
            [''x1'' \<mapsto> \<lparr>px_fromUserId = ''alice'', px_toUserId = ''bob'',
                        px_publicKey = ''cGs='', px_signature = ''c2ln'',
                        px_timestamp = Some 1700000000000, px_createdAt = 1700000000100,
                        px_confirmedBy = None\<rparr>]))))"
  using confirm_deletes_without_responder by (simp add: status_of_def domIff)









end
